theory Spec2Isabelle
  imports Main
begin

section \<open>Python strings\<close>

text \<open>
  A Python \<open>str\<close> is modelled as a \<^typ>\<open>string\<close>; a character stands for the code
  point of the same number, so the development covers lines whose code points are below
  256. The functions below are the \<open>str\<close> operations that the driver uses, with the
  exceptions that Python raises written out as values.
\<close>

datatype error = IndexError | TypeError | ValueError

text \<open>\<open>str.isspace\<close> on one code point below 256.\<close>

definition isspace :: "char \<Rightarrow> bool" where
  "isspace c = (of_char c \<in> {9, 10, 11, 12, 13, 28, 29, 30, 31, 32, 133, 160 :: nat})"

text \<open>\<open>s.strip()\<close>: leading and trailing whitespace removed.\<close>

definition strip :: "string \<Rightarrow> string" where
  "strip s = rev (dropWhile isspace (rev (dropWhile isspace s)))"

text \<open>\<open>s.startswith(p)\<close>.\<close>

fun startswith :: "string \<Rightarrow> string \<Rightarrow> bool" where
  "startswith [] s = True"
| "startswith (p # ps) [] = False"
| "startswith (p # ps) (c # cs) = (p = c \<and> startswith ps cs)"

text \<open>\<open>sub in s\<close> for strings.\<close>

fun contains :: "string \<Rightarrow> string \<Rightarrow> bool" where
  "contains sub [] = (sub = [])"
| "contains sub (c # cs) = (startswith sub (c # cs) \<or> contains sub cs)"

text \<open>
  \<open>s.split(sep)\<close> for a separator given explicitly: the pieces between the
  non-overlapping occurrences of \<open>sep\<close>, found from the left. The second argument
  collects the piece being read. Every separator of the driver is a non-empty literal
  (Python raises on an empty one; here an empty separator never matches).
\<close>

function split_from :: "string \<Rightarrow> string \<Rightarrow> string \<Rightarrow> string list" where
  "split_from sep acc [] = [acc]"
| "split_from sep acc (c # cs) =
     (if sep \<noteq> [] \<and> startswith sep (c # cs)
      then acc # split_from sep [] (drop (length sep) (c # cs))
      else split_from sep (acc @ [c]) cs)"
  by pat_completeness auto
termination
  by (relation "measure (\<lambda>(sep, acc, s). length s)") (auto simp: neq_Nil_conv)

definition split :: "string \<Rightarrow> string \<Rightarrow> string list" where
  "split s sep = split_from sep [] s"

text \<open>\<open>sep.join(xs)\<close>.\<close>

fun join :: "string \<Rightarrow> string list \<Rightarrow> string" where
  "join sep [] = []"
| "join sep [x] = x"
| "join sep (x # y # ys) = x @ sep @ join sep (y # ys)"

text \<open>\<open>str(n)\<close> for an integer: decimal digits, with a minus sign when negative.\<close>

definition digit_char :: "nat \<Rightarrow> char" where
  "digit_char d = char_of (48 + d)"

fun str_nat :: "nat \<Rightarrow> string" where
  "str_nat n = (if n < 10 then [digit_char n] else str_nat (n div 10) @ [digit_char (n mod 10)])"

declare str_nat.simps [simp del]

definition str_int :: "int \<Rightarrow> string" where
  "str_int i = (if i < 0 then CHR ''-'' # str_nat (nat (- i)) else str_nat (nat i))"

text \<open>
  \<open>int(c)\<close> for a one-character string: the digit's value, \<open>ValueError\<close> for any
  other character (below 256 the decimal digits are \<open>0\<close> to \<open>9\<close>).
\<close>

definition isdigit :: "char \<Rightarrow> bool" where
  "isdigit c = (48 \<le> (of_char c :: nat) \<and> (of_char c :: nat) \<le> 57)"

definition int_of_digit :: "char \<Rightarrow> error + nat" where
  "int_of_digit c = (if isdigit c then Inr (of_char c - 48) else Inl ValueError)"

text \<open>\<open>int(s)\<close> for a non-empty string of decimal digits.\<close>

definition int_of_digits :: "string \<Rightarrow> nat" where
  "int_of_digits s = foldl (\<lambda>n c. 10 * n + (of_char c - 48)) 0 s"

text \<open>\<open>os.path.join(a, b)\<close> on a POSIX system.\<close>

definition path_join :: "string \<Rightarrow> string \<Rightarrow> string" where
  "path_join a b =
     (if startswith ''/'' b then b
      else if a = [] \<or> last a = CHR ''/'' then a @ b
      else a @ ''/'' @ b)"

text \<open>
  \<open>re.search(r"received DTMF: '(.)' \(duration=(\d+)\)", s)\<close>: the two groups of the
  leftmost match. \<open>after_prefix p s\<close> is the rest of \<open>s\<close> behind the literal \<open>p\<close>;
  the dot matches any character but a newline; \<open>\d+\<close> is greedy and the character behind
  the digits has to be the closing parenthesis.
\<close>

fun after_prefix :: "string \<Rightarrow> string \<Rightarrow> string option" where
  "after_prefix [] s = Some s"
| "after_prefix (p # ps) [] = None"
| "after_prefix (p # ps) (c # cs) = (if p = c then after_prefix ps cs else None)"

definition dtmf_match_here :: "string \<Rightarrow> (char \<times> string) option" where
  "dtmf_match_here s =
     (case after_prefix (''received DTMF: '' @ [CHR 0x27]) s of
        None \<Rightarrow> None
      | Some [] \<Rightarrow> None
      | Some (c # r) \<Rightarrow>
          if c = CHR 0x0A then None
          else (case after_prefix (CHR 0x27 # '' (duration='') r of
                  None \<Rightarrow> None
                | Some r2 \<Rightarrow>
                    if takeWhile isdigit r2 \<noteq> [] \<and> startswith '')'' (dropWhile isdigit r2)
                    then Some (c, takeWhile isdigit r2) else None))"

fun dtmf_search :: "string \<Rightarrow> (char \<times> string) option" where
  "dtmf_search [] = dtmf_match_here []"
| "dtmf_search (c # cs) =
     (case dtmf_match_here (c # cs) of Some m \<Rightarrow> Some m | None \<Rightarrow> dtmf_search cs)"

section \<open>Identity\<close>

record Identity =
  user :: string
  password :: string
  gateway :: string
  flags :: "string list"
  port :: int

text \<open>
  The property \<open>Identity.sip\<close>. It works on a copy of \<open>self.flags\<close>, appends the
  password flag to the copy and formats the address. The result is paired with the
  identity as it is left behind by the call.
\<close>

definition Identity_sip :: "Identity \<Rightarrow> string \<times> Identity" where
  "Identity_sip self =
     (let flags_copy = flags self;
          flags_copy = flags_copy @ [''auth_pass='' @ password self]
      in (''sip:'' @ user self @ ''@'' @ gateway self @ '':'' @ str_int (port self) @ '';''
            @ join '';'' flags_copy,
          self))"

definition sip :: "Identity \<Rightarrow> string" where
  "sip self = fst (Identity_sip self)"

text \<open>Reading the property \<open>n\<close> times in a row: the values read, and the identity afterwards.\<close>

fun sip_times :: "nat \<Rightarrow> Identity \<Rightarrow> string list \<times> Identity" where
  "sip_times 0 self = ([], self)"
| "sip_times (Suc n) self =
     (let (v, self1) = Identity_sip self; (vs, self2) = sip_times n self1 in (v # vs, self2))"

text \<open>
  The components of an address are its pieces between semicolons; an \<open>auth_pass=\<close>
  component is one that starts with that text.
\<close>

definition auth_pass_components :: "string \<Rightarrow> string list" where
  "auth_pass_components uri = filter (startswith ''auth_pass='') (split uri '';'')"

section \<open>The driver and its state\<close>

text \<open>
  Modelled from the spec: the enumeration \<open>baresipy.constants.CallStatus\<close>, whose module
  is not part of the sources at hand. The members are the ones the spec lists, under the
  names the driver uses for them (\<open>UKNOWN\<close> is the driver's spelling).
\<close>

datatype CallStatus =
  NONE | INCOMING | OUTGOING | RINGING | ESTABLISHED | ON_HOLD | DISCONNECTED | UKNOWN

fun status_name :: "CallStatus \<Rightarrow> string" where
  "status_name NONE = ''NONE''"
| "status_name INCOMING = ''INCOMING''"
| "status_name OUTGOING = ''OUTGOING''"
| "status_name RINGING = ''RINGING''"
| "status_name ESTABLISHED = ''ESTABLISHED''"
| "status_name ON_HOLD = ''ON_HOLD''"
| "status_name DISCONNECTED = ''DISCONNECTED''"
| "status_name UKNOWN = ''UKNOWN''"

datatype level = DEBUG | INFO | WARNING | ERROR

text \<open>
  The \<open>handle_*\<close> methods are the overridable hooks of the class. \<open>H_x\<close> records one
  call of \<open>handle_x\<close> with its arguments; the bodies modelled below are the default ones.
\<close>

datatype hook_call =
    H_incoming_call string
  | H_call_rejected string
  | H_call_timestamp string
  | H_call_status_change CallStatus CallStatus
  | H_call_start bool
  | H_call_ringing bool
  | H_call_established
  | H_call_ended string
  | H_login_success
  | H_login_failure
  | H_ready
  | H_mic_muted
  | H_mic_unmuted
  | H_audio_stream_failure
  | H_dtmf_received char nat
  | H_error string

text \<open>
  The fields of a \<open>BareSIP\<close> object that the event loop and the commands use, and three
  traces of what the object does to the outside: \<open>sent\<close> holds the lines written with
  \<open>self.baresip.sendline\<close>, \<open>logged\<close> the log records, \<open>hooks\<close> the hook calls.
  \<open>config_file\<close> is the content of the configuration file on disk and \<open>killed\<close> tells
  whether the child process was closed and killed.
\<close>

record BareSIP =
  identity :: Identity
  updated_config :: bool
  original_config :: string
  config_file :: string
  prev_output :: string
  running :: bool
  ready :: bool
  mic_muted :: bool
  abort :: bool
  current_call :: "string option"
  call_status :: CallStatus
  previous_call_status :: CallStatus
  ts :: "string option"
  killed :: bool
  sent :: "string list"
  logged :: "(level \<times> string) list"
  hooks :: "hook_call list"

text \<open>What lies outside the object: the directory of temporary files and the speech engine.\<close>

record env =
  tmpdir :: string
  tts_get_mp3 :: "string \<Rightarrow> string"

text \<open>
  The state that \<open>__init__\<close> leaves behind, before the thread runs. The handling of the
  configuration file is summarised by its outcome: whether the file was rewritten, its
  original content and its content now.
\<close>

definition init :: "Identity \<Rightarrow> bool \<Rightarrow> string \<Rightarrow> string \<Rightarrow> BareSIP" where
  "init ident updated original config =
     \<lparr>identity = ident, updated_config = updated, original_config = original,
      config_file = config, prev_output = [], running = False, ready = False,
      mic_muted = False, abort = False, current_call = None, call_status = NONE,
      previous_call_status = NONE, ts = None, killed = False, sent = [], logged = [],
      hooks = []\<rparr>"

text \<open>A method either returns, leaving a state, or raises, leaving the state reached so far.\<close>

type_synonym result = "(error \<times> BareSIP) + BareSIP"

definition outcome :: "result \<Rightarrow> BareSIP" where
  "outcome r = (case r of Inl (e, s) \<Rightarrow> s | Inr s \<Rightarrow> s)"

definition raised :: "result \<Rightarrow> error option" where
  "raised r = (case r of Inl (e, s) \<Rightarrow> Some e | Inr s \<Rightarrow> None)"

text \<open>Statements one after the other.\<close>

definition steps :: "('s \<Rightarrow> 's) list \<Rightarrow> 's \<Rightarrow> 's" where
  "steps fs s = fold (\<lambda>f. f) fs s"

definition log_msg :: "level \<Rightarrow> string \<Rightarrow> BareSIP \<Rightarrow> BareSIP" where
  "log_msg l m self = self\<lparr>logged := logged self @ [(l, m)]\<rparr>"

definition sendline :: "string \<Rightarrow> BareSIP \<Rightarrow> BareSIP" where
  "sendline text self = self\<lparr>sent := sent self @ [text]\<rparr>"

definition hook :: "hook_call \<Rightarrow> BareSIP \<Rightarrow> BareSIP" where
  "hook h self = self\<lparr>hooks := hooks self @ [h]\<rparr>"

text \<open>The truth value of \<open>self.current_call\<close>: neither \<open>None\<close> nor the empty string.\<close>

definition truthy :: "string option \<Rightarrow> bool" where
  "truthy c = (case c of None \<Rightarrow> False | Some n \<Rightarrow> n \<noteq> [])"

definition call_established :: "BareSIP \<Rightarrow> bool" where
  "call_established self = (call_status self = ESTABLISHED)"

subsection \<open>Actions\<close>

definition do_command :: "string \<Rightarrow> BareSIP \<Rightarrow> BareSIP" where
  "do_command action self =
     (if ready self then sendline action self
      else steps [log_msg WARNING (action @ '' not executed!''),
                  log_msg ERROR ''NOT READY! please wait''] self)"

definition create_user_agent :: "BareSIP \<Rightarrow> BareSIP" where
  "create_user_agent self =
     steps [log_msg INFO (''Adding account to baresip: '' @ sip (identity self)),
            sendline (''/uanew '' @ sip (identity self))] self"

definition call :: "string \<Rightarrow> BareSIP \<Rightarrow> BareSIP" where
  "call number self =
     steps [log_msg INFO (''Dialing: '' @ number), do_command (''/dial '' @ number)] self"

definition hang :: "BareSIP \<Rightarrow> BareSIP" where
  "hang self =
     (if truthy (current_call self)
      then steps [log_msg INFO (''Hanging: '' @ the (current_call self)),
                  do_command ''/hangup'',
                  (\<lambda>s. s\<lparr>current_call := None\<rparr>),
                  (\<lambda>s. s\<lparr>call_status := NONE\<rparr>)] self
      else log_msg ERROR ''No active call to hang'' self)"

definition hold :: "BareSIP \<Rightarrow> BareSIP" where
  "hold self =
     (if truthy (current_call self)
      then steps [log_msg INFO (''Holding: '' @ the (current_call self)),
                  do_command ''/hold''] self
      else log_msg ERROR ''No active call to hold'' self)"

definition resume :: "BareSIP \<Rightarrow> BareSIP" where
  "resume self =
     (if truthy (current_call self)
      then steps [log_msg INFO (''Resuming: '' @ the (current_call self)),
                  do_command ''/resume''] self
      else log_msg ERROR ''No active call to resume'' self)"

definition mute_mic :: "BareSIP \<Rightarrow> BareSIP" where
  "mute_mic self =
     (if \<not> call_established self
      then log_msg ERROR ''Cannot mute microphone while not in a call'' self
      else if \<not> mic_muted self
      then steps [log_msg INFO ''Muting mic'', do_command ''/mute''] self
      else log_msg INFO ''Mic already muted'' self)"

definition unmute_mic :: "BareSIP \<Rightarrow> BareSIP" where
  "unmute_mic self =
     (if \<not> call_established self
      then log_msg ERROR ''Cannot unmute microphone while not in a call'' self
      else if mic_muted self
      then steps [log_msg INFO ''Unmuting mic'', do_command ''/mute''] self
      else log_msg INFO ''Mic already unmuted'' self)"

text \<open>
  \<open>_handle_call_status\<close>: the old status is kept as the previous one, the new one is
  stored, and the status-change hook is called with both.
\<close>

definition handle_call_status :: "CallStatus \<Rightarrow> BareSIP \<Rightarrow> BareSIP" where
  "handle_call_status status self =
     steps [(\<lambda>s. s\<lparr>previous_call_status := call_status s\<rparr>),
            (\<lambda>s. s\<lparr>call_status := status\<rparr>),
            (\<lambda>s. log_msg DEBUG (''Call status transition, ''
                     @ status_name (previous_call_status s) @ '' to ''
                     @ status_name (call_status s)) s),
            (\<lambda>s. hook (H_call_status_change (previous_call_status s) (call_status s)) s)]
       self"

definition accept_call :: "BareSIP \<Rightarrow> BareSIP" where
  "accept_call self = steps [do_command ''/accept'', handle_call_status ESTABLISHED] self"

definition list_calls :: "BareSIP \<Rightarrow> BareSIP" where
  "list_calls self = do_command ''/listcalls'' self"

text \<open>\<open>check_call_status\<close> also returns the status it reads; the state is what is kept.\<close>

definition check_call_status :: "BareSIP \<Rightarrow> BareSIP" where
  "check_call_status self = do_command ''/callstat'' self"

definition quit :: "BareSIP \<Rightarrow> BareSIP" where
  "quit self =
     steps [(\<lambda>s. if updated_config s
                 then steps [log_msg INFO ''restoring original config'',
                             (\<lambda>s. s\<lparr>config_file := original_config s\<rparr>)] s
                 else s),
            log_msg INFO ''Exiting'',
            (\<lambda>s. if running s
                 then steps [(\<lambda>s. if truthy (current_call s) then hang s else s),
                             sendline ''/quit''] s
                 else s),
            (\<lambda>s. s\<lparr>running := False\<rparr>),
            (\<lambda>s. s\<lparr>current_call := None\<rparr>),
            (\<lambda>s. s\<lparr>call_status := NONE\<rparr>),
            (\<lambda>s. s\<lparr>abort := True\<rparr>),
            (\<lambda>s. s\<lparr>killed := True\<rparr>)] self"

text \<open>
  \<open>convert_audio\<close> hands the sound to the audio library and returns the name of the
  file it wrote in the directory of temporary files; of \<open>send_audio\<close> the waiting for
  the playback is left out, it changes no field.
\<close>

definition convert_audio :: "env \<Rightarrow> string \<Rightarrow> string" where
  "convert_audio e input_file = path_join (tmpdir e) ''pybaresip.wav''"

definition send_audio :: "env \<Rightarrow> string \<Rightarrow> BareSIP \<Rightarrow> BareSIP" where
  "send_audio e wav_file self =
     (if \<not> call_established self
      then log_msg ERROR ''Can't send audio without an active call!'' self
      else steps [log_msg INFO ''transmitting audio'',
                  do_command (''/ausrc aufile,'' @ convert_audio e wav_file),
                  do_command ''/ausrc alsa,default''] self)"

text \<open>
  The loop of \<open>send_dtmf\<close> over the characters of \<open>str(number)\<close>: \<open>Inr False\<close> at the
  first digit outside \<open>range(0, 9)\<close>, an error where \<open>int(n)\<close> raises.
\<close>

fun dtmf_digits_ok :: "string \<Rightarrow> error + bool" where
  "dtmf_digits_ok [] = Inr True"
| "dtmf_digits_ok (n # ns) =
     (case int_of_digit n of
        Inl err \<Rightarrow> Inl err
      | Inr d \<Rightarrow> if d \<in> set [0..<9] then dtmf_digits_ok ns else Inr False)"

definition send_dtmf :: "env \<Rightarrow> int \<Rightarrow> BareSIP \<Rightarrow> result" where
  "send_dtmf e number self =
     (let s_number = str_int number in
      case dtmf_digits_ok s_number of
        Inl err \<Rightarrow> Inl (err, self)
      | Inr False \<Rightarrow> Inr (log_msg ERROR ''Invalid DTMF tone'' self)
      | Inr True \<Rightarrow>
          Inr (steps [log_msg INFO (''Sending DTMF tones for '' @ s_number),
                      send_audio e (path_join (tmpdir e) (s_number @ ''.wav''))] self))"

definition speak :: "env \<Rightarrow> string \<Rightarrow> BareSIP \<Rightarrow> BareSIP" where
  "speak e speech self =
     (if \<not> call_established self
      then log_msg ERROR ''Speaking without an active call!'' self
      else steps [log_msg INFO (''Sending TTS for '' @ speech),
                  send_audio e (tts_get_mp3 e speech)] self)"

subsection \<open>Events\<close>

definition handle_incoming_call :: "string \<Rightarrow> BareSIP \<Rightarrow> BareSIP" where
  "handle_incoming_call number self =
     steps [hook (H_incoming_call number),
            log_msg INFO (''Incoming call: '' @ number),
            (\<lambda>s. if call_established s
                 then steps [log_msg INFO ''already in a call, rejecting'', do_command ''b''] s
                 else steps [log_msg INFO ''default behaviour, rejecting call'',
                             do_command ''b''] s)] self"

definition handle_call_rejected :: "string \<Rightarrow> BareSIP \<Rightarrow> BareSIP" where
  "handle_call_rejected number self =
     steps [hook (H_call_rejected number),
            log_msg INFO (''Rejected incoming call: '' @ number)] self"

definition handle_call_timestamp :: "string \<Rightarrow> BareSIP \<Rightarrow> BareSIP" where
  "handle_call_timestamp timestr self =
     steps [hook (H_call_timestamp timestr), log_msg INFO (''Call time: '' @ timestr)] self"

text \<open>\<open>_handle_call_start\<close> and \<open>_handle_call_ringing\<close>, which call hooks with empty bodies.\<close>

definition priv_handle_call_start :: "BareSIP \<Rightarrow> BareSIP" where
  "priv_handle_call_start self =
     (if truthy (current_call self)
      then steps [log_msg INFO (''Calling: '' @ the (current_call self)),
                  hook (H_call_start False)] self
      else steps [log_msg ERROR ''In call startup, but self.current_call is None'',
                  hook (H_call_start True)] self)"

definition priv_handle_call_ringing :: "BareSIP \<Rightarrow> BareSIP" where
  "priv_handle_call_ringing self =
     (if truthy (current_call self)
      then steps [log_msg INFO (''Ringing: '' @ the (current_call self)),
                  hook (H_call_ringing False)] self
      else steps [log_msg ERROR ''In call ringing, but self.current_call is None'',
                  hook (H_call_ringing True)] self)"

definition handle_call_established :: "BareSIP \<Rightarrow> BareSIP" where
  "handle_call_established self =
     steps [hook H_call_established, log_msg INFO ''Call established''] self"

definition handle_call_ended :: "string \<Rightarrow> BareSIP \<Rightarrow> BareSIP" where
  "handle_call_ended reason self =
     steps [hook (H_call_ended reason), log_msg INFO ''Call ended'',
            log_msg DEBUG (''Reason: '' @ reason)] self"

definition priv_handle_no_accounts :: "BareSIP \<Rightarrow> BareSIP" where
  "priv_handle_no_accounts self =
     steps [log_msg DEBUG ''No accounts in baresip, creating one'', create_user_agent] self"

definition handle_login_success :: "BareSIP \<Rightarrow> BareSIP" where
  "handle_login_success self = steps [hook H_login_success, log_msg INFO ''Logged in!''] self"

definition handle_login_failure :: "BareSIP \<Rightarrow> BareSIP" where
  "handle_login_failure self =
     steps [hook H_login_failure, log_msg ERROR ''Log in failed!'', quit] self"

definition handle_ready :: "BareSIP \<Rightarrow> BareSIP" where
  "handle_ready self =
     steps [hook H_ready, log_msg INFO ''Ready for instructions'',
            (\<lambda>s. s\<lparr>ready := True\<rparr>)] self"

definition handle_mic_muted :: "BareSIP \<Rightarrow> BareSIP" where
  "handle_mic_muted self = steps [hook H_mic_muted, log_msg INFO ''Microphone muted''] self"

definition handle_mic_unmuted :: "BareSIP \<Rightarrow> BareSIP" where
  "handle_mic_unmuted self =
     steps [hook H_mic_unmuted, log_msg INFO ''Microphone unmuted''] self"

definition handle_audio_stream_failure :: "BareSIP \<Rightarrow> BareSIP" where
  "handle_audio_stream_failure self =
     steps [hook H_audio_stream_failure,
            log_msg DEBUG ''Aborting call, maybe we reached voicemail?'', hang] self"

definition handle_dtmf_received :: "char \<Rightarrow> nat \<Rightarrow> BareSIP \<Rightarrow> BareSIP" where
  "handle_dtmf_received c duration self =
     steps [hook (H_dtmf_received c duration),
            log_msg INFO (''Received DTMF symbol '' @ [CHR 0x27, c, CHR 0x27] @ '' duration=''
                          @ str_nat duration)] self"

definition handle_error :: "string \<Rightarrow> BareSIP \<Rightarrow> BareSIP" where
  "handle_error err self =
     steps [hook (H_error err), log_msg ERROR err,
            (\<lambda>s. if err = ''failed to set audio-source (No such device)''
                 then handle_audio_stream_failure s else s)] self"

subsection \<open>The event loop\<close>

text \<open>
  \<open>xs[i]\<close> inside the loop: the element is handed on, and out of range the loop is left
  with \<open>IndexError\<close> in the state reached.
\<close>

definition getitem :: "'a list \<Rightarrow> nat \<Rightarrow> BareSIP \<Rightarrow> ('a \<Rightarrow> result) \<Rightarrow> result" where
  "getitem xs i self k = (if i < length xs then k (xs ! i) else Inl (IndexError, self))"

text \<open>
  The chain of \<open>if\<close> and \<open>elif\<close> of \<open>run\<close>, on the stripped line \<open>out\<close>. The tests and
  their order are the ones of the source.
\<close>

definition dispatch :: "string \<Rightarrow> BareSIP \<Rightarrow> result" where
  "dispatch out self =
    (if contains ''baresip is ready.'' out then Inr (handle_ready self)
     else if contains ''account: No SIP accounts found'' out
     then Inr (priv_handle_no_accounts self)
     else if contains ''All 1 useragent registered successfully!'' out
     then Inr (steps [(\<lambda>s. s\<lparr>ready := True\<rparr>), handle_login_success] self)
     else if contains ''ua: SIP register failed:'' out
           \<or> contains ''401 Unauthorized'' out
           \<or> contains ''Register: Destination address required'' out
           \<or> contains ''Register: Connection timed out'' out
     then Inr (steps [handle_error out, handle_login_failure] self)
     else if contains ''Incoming call from: '' out
     then getitem (split out ''Incoming call from: '') 1 self (\<lambda>a.
          getitem (split a '' - (press 'a' to accept)'') 0 self (\<lambda>b.
            let num = strip b in
            Inr (steps [(\<lambda>s. s\<lparr>current_call := Some num\<rparr>),
                        handle_call_status INCOMING,
                        handle_incoming_call num] self)))
     else if contains ''call: rejecting incoming call from '' out
     then getitem (split out ''rejecting incoming call from '') 1 self (\<lambda>a.
          getitem (split a '' '') 0 self (\<lambda>b.
            Inr (handle_call_rejected (strip b) self)))
     else if contains ''call: SIP Progress: 180 Ringing'' out
     then Inr (steps [priv_handle_call_ringing, handle_call_status RINGING] self)
     else if contains ''call: connecting to '' out
     then getitem (split out (''call: connecting to '' @ [CHR 0x27])) 1 self (\<lambda>a.
          getitem (split a [CHR 0x27]) 0 self (\<lambda>n.
            Inr (steps [(\<lambda>s. s\<lparr>current_call := Some n\<rparr>),
                        priv_handle_call_start,
                        handle_call_status OUTGOING] self)))
     else if contains ''Call established:'' out
     then Inr (steps [handle_call_status ESTABLISHED, handle_call_established] self)
     else if contains ''call: hold '' out
     then getitem (split out ''call: hold '') 1 self (\<lambda>n.
            Inr (handle_call_status ON_HOLD self))
     else if contains ''Call with '' out \<and> contains ''terminated (duration: '' out
     then getitem (split out ''terminated (duration: '') 1 self (\<lambda>a.
            let duration = butlast a in
            Inr (steps [handle_call_status DISCONNECTED,
                        handle_call_timestamp duration,
                        (\<lambda>s. s\<lparr>mic_muted := False\<rparr>)] self))
     else if contains ''call muted'' out
     then Inr (steps [(\<lambda>s. s\<lparr>mic_muted := True\<rparr>), handle_mic_muted] self)
     else if contains ''call un-muted'' out
     then Inr (steps [(\<lambda>s. s\<lparr>mic_muted := False\<rparr>), handle_mic_unmuted] self)
     else if contains ''session closed:'' out
     then getitem (split out ''session closed:'') 1 self (\<lambda>a.
            Inr (steps [handle_call_status DISCONNECTED,
                        handle_call_ended (strip a),
                        (\<lambda>s. s\<lparr>mic_muted := False\<rparr>)] self))
     else if contains ''(no active calls)'' out
     then Inr (handle_call_status DISCONNECTED self)
     else if contains ''===== Call debug '' out
     then getitem (split out ''('') 1 self (\<lambda>a.
          getitem (split a '')'') 0 self (\<lambda>status.
            Inr (steps [log_msg WARNING (''baresip produced status '' @ [CHR 0x27] @ status
                                         @ [CHR 0x27] @ '', mapping to CallStatus.UNKNOWN''),
                        handle_call_status UKNOWN] self)))
     else if contains ''--- List of active calls (1): ---'' (prev_output self)
     then (if contains ''ESTABLISHED'' out
           then (case current_call self of
                   None \<Rightarrow> Inl (TypeError, self)
                 | Some c \<Rightarrow>
                     if contains c out
                     then getitem (split out ''ESTABLISHED'') 0 self (\<lambda>a.
                          getitem (split a ''[line 1]'') 1 self (\<lambda>b.
                            let t = strip b in
                            if Some t \<noteq> ts self
                            then Inr (steps [(\<lambda>s. s\<lparr>ts := Some t\<rparr>),
                                             handle_call_timestamp t] self)
                            else Inr self))
                     else Inr self)
           else Inr self)
     else if contains ''failed to set audio-source (No such device)'' out
     then Inr (handle_error ''failed to set audio-source (No such device)'' self)
     else if contains ''terminated by signal'' out \<or> contains ''ua: stop all'' out
     then Inr (self\<lparr>running := False\<rparr>)
     else if contains ''received DTMF:'' out
     then (case dtmf_search out of
             Some (c, digits) \<Rightarrow> Inr (handle_dtmf_received c (int_of_digits digits) self)
           | None \<Rightarrow> Inr self)
     else Inr self)"

text \<open>
  What one pass of the loop body does with a line read from the process: a line equal
  to \<open>_prev_output\<close> is skipped, any other line is stripped, logged and dispatched, and
  the stripped line is kept as \<open>_prev_output\<close>. An exception of the dispatch leaves the
  loop before that assignment.
\<close>

definition on_line :: "string \<Rightarrow> BareSIP \<Rightarrow> result" where
  "on_line raw self =
     (if raw \<noteq> prev_output self
      then (let out = strip raw in
            case dispatch out (log_msg DEBUG (''baresip> '' @ out) self) of
              Inl err \<Rightarrow> Inl err
            | Inr s \<Rightarrow> Inr (s\<lparr>prev_output := out\<rparr>))
      else Inr self)"

text \<open>
  What \<open>self.baresip.readline()\<close> can give: a line, or one of the three exceptions that
  the loop catches.
\<close>

datatype reading = Line string | EOF | TIMEOUT | KeyboardInterrupt

fun iteration :: "reading \<Rightarrow> BareSIP \<Rightarrow> result" where
  "iteration (Line raw) self = on_line raw self"
| "iteration EOF self = Inr (self\<lparr>running := False\<rparr>)"
| "iteration TIMEOUT self = Inr self"
| "iteration KeyboardInterrupt self = Inr (self\<lparr>running := False\<rparr>)"

text \<open>
  \<open>run\<close> on the readings that arrive: the loop goes on while \<open>running\<close> holds and is
  followed by \<open>quit\<close>; when the readings are used up with the loop still running, the
  state is the one in which the loop waits for the next line.
\<close>

fun run_loop :: "reading list \<Rightarrow> BareSIP \<Rightarrow> result" where
  "run_loop [] self = (if running self then Inr self else Inr (quit self))"
| "run_loop (r # rs) self =
     (if running self
      then (case iteration r self of Inl err \<Rightarrow> Inl err | Inr s \<Rightarrow> run_loop rs s)
      else Inr (quit self))"

definition run :: "reading list \<Rightarrow> BareSIP \<Rightarrow> result" where
  "run rs self = run_loop rs (self\<lparr>running := True\<rparr>)"

subsection \<open>Sessions\<close>

text \<open>The operations that a caller has on the object.\<close>

datatype command =
    Do_command string
  | Create_user_agent
  | Call string
  | Hang
  | Hold
  | Resume
  | Mute_mic
  | Unmute_mic
  | Accept_call
  | List_calls
  | Check_call_status
  | Quit
  | Send_dtmf int
  | Speak string
  | Send_audio string

fun facade :: "env \<Rightarrow> command \<Rightarrow> BareSIP \<Rightarrow> result" where
  "facade e (Do_command action) self = Inr (do_command action self)"
| "facade e Create_user_agent self = Inr (create_user_agent self)"
| "facade e (Call number) self = Inr (call number self)"
| "facade e Hang self = Inr (hang self)"
| "facade e Hold self = Inr (hold self)"
| "facade e Resume self = Inr (resume self)"
| "facade e Mute_mic self = Inr (mute_mic self)"
| "facade e Unmute_mic self = Inr (unmute_mic self)"
| "facade e Accept_call self = Inr (accept_call self)"
| "facade e List_calls self = Inr (list_calls self)"
| "facade e Check_call_status self = Inr (check_call_status self)"
| "facade e Quit self = Inr (quit self)"
| "facade e (Send_dtmf number) self = send_dtmf e number self"
| "facade e (Speak speech) self = Inr (speak e speech self)"
| "facade e (Send_audio wav_file) self = Inr (send_audio e wav_file self)"

text \<open>
  A session is a sequence of steps, each a pass of the loop body on one reading or a
  call of one operation; \<open>session\<close> gives the state after the steps, whether a step
  returned or raised.
\<close>

datatype action = Read reading | Command command

fun step :: "env \<Rightarrow> action \<Rightarrow> BareSIP \<Rightarrow> BareSIP" where
  "step e (Read r) self = outcome (iteration r self)"
| "step e (Command c) self = outcome (facade e c self)"

definition session :: "env \<Rightarrow> action list \<Rightarrow> BareSIP \<Rightarrow> BareSIP" where
  "session e as self = fold (step e) as self"

text \<open>
  What a step can do to the tracked call and the status: leave the tracked call alone
  and the status either as it was or other than \<open>NONE\<close>, or leave a tracked call with a
  status other than \<open>NONE\<close>, or leave no tracked call and the status \<open>NONE\<close>.
\<close>

definition moves :: "BareSIP \<Rightarrow> BareSIP \<Rightarrow> bool" where
  "moves s s' =
     ((current_call s' = current_call s
        \<and> (call_status s' = call_status s \<or> call_status s' \<noteq> NONE))
      \<or> (current_call s' \<noteq> None \<and> call_status s' \<noteq> NONE)
      \<or> (current_call s' = None \<and> call_status s' = NONE))"

section \<open>A sample driver\<close>

text \<open>An identity, an environment and the driver that \<open>__init__\<close> makes of them.\<close>

definition alice :: Identity where
  "alice = \<lparr>user = ''alice'', password = ''secret'', gateway = ''sip.example.org'',
            flags = [''regint=0''], port = 5060\<rparr>"

definition local_env :: env where
  "local_env = \<lparr>tmpdir = ''/tmp'', tts_get_mp3 = (\<lambda>speech. ''/tmp/speech.mp3'')\<rparr>"

definition fresh :: BareSIP where
  "fresh = init alice False ''audio_player aplay'' ''audio_player aplay''"

text \<open>An identity whose flags already carry a password flag.\<close>

definition carol :: Identity where
  "carol = \<lparr>user = ''carol'', password = ''secret'', gateway = ''sip.example.org'',
            flags = [''auth_pass=hunter2''], port = 5060\<rparr>"

lemmas primitive_defs = steps_def log_msg_def sendline_def hook_def

lemmas action_defs =
  do_command_def create_user_agent_def call_def hang_def hold_def resume_def mute_mic_def
  unmute_mic_def handle_call_status_def accept_call_def list_calls_def
  check_call_status_def quit_def send_audio_def speak_def

lemmas event_defs =
  handle_incoming_call_def handle_call_rejected_def handle_call_timestamp_def
  priv_handle_call_start_def priv_handle_call_ringing_def handle_call_established_def
  handle_call_ended_def priv_handle_no_accounts_def handle_login_success_def
  handle_login_failure_def handle_ready_def handle_mic_muted_def handle_mic_unmuted_def
  handle_audio_stream_failure_def handle_dtmf_received_def handle_error_def

section \<open>The gate of commands\<close>



section \<open>Scenarios of the event loop\<close>

lemmas loop_defs = dispatch_def on_line_def run_def strip_def isspace_def split_def
  getitem_def outcome_def raised_def truthy_def call_established_def Let_def

text \<open>
  C7, as the driver has it. From the state that \<open>__init__\<close> leaves, the line
  \<open>baresip is ready.\<close> makes \<open>handle_ready\<close> set \<open>ready\<close> to true and writes nothing to
  the process; the line \<open>account: No SIP accounts found\<close> after it makes the driver write
  the one command \<open>/uanew\<close> followed by the address of the identity. Neither line
  raises.
\<close>

theorem ready_then_no_accounts:
  "raised (run [Line ''baresip is ready.'', Line ''account: No SIP accounts found'']
             (init ident updated original config)) = None
   \<and> ready (outcome (run [Line ''baresip is ready.''] (init ident updated original config)))
   \<and> sent (outcome (run [Line ''baresip is ready.''] (init ident updated original config))) = []
   \<and> sent (outcome (run [Line ''baresip is ready.'', Line ''account: No SIP accounts found'']
                      (init ident updated original config)))
       = [''/uanew '' @ sip ident]"
  by code_simp

text \<open>
  C7 as it is stated fails: after the first line \<open>ready\<close> is not false any more.
\<close>

theorem ready_after_first_line:
  "ready (outcome (run [Line ''baresip is ready.''] fresh))"
  by code_simp

text \<open>
  C8, as the driver has it. \<open>Call established:\<close> sets the status to \<open>ESTABLISHED\<close>, the
  line \<open>Call with bob terminated (duration: 00:01:23)\<close> after it sets it to
  \<open>DISCONNECTED\<close>. The hooks called are, in this order, the status change to
  \<open>ESTABLISHED\<close>, the call-established hook, the status change to \<open>DISCONNECTED\<close> and the
  timestamp hook. The text behind the marker \<open>terminated (duration: \<close> is \<open>00:01:23)\<close>;
  its last character, the closing parenthesis, is cut off, so the timestamp hook gets
  \<open>00:01:23\<close>. A microphone muted during the call is not muted after the second line.
\<close>

theorem established_then_terminated:
  "call_status (outcome (run [Line ''Call established:''] fresh)) = ESTABLISHED
   \<and> call_status (outcome (run [Line ''Call established:'',
                                 Line ''Call with bob terminated (duration: 00:01:23)''] fresh))
       = DISCONNECTED
   \<and> hooks (outcome (run [Line ''Call established:'',
                           Line ''Call with bob terminated (duration: 00:01:23)''] fresh))
       = [H_call_status_change NONE ESTABLISHED, H_call_established,
          H_call_status_change ESTABLISHED DISCONNECTED, H_call_timestamp ''00:01:23'']
   \<and> split ''Call with bob terminated (duration: 00:01:23)'' ''terminated (duration: '' ! 1
       = ''00:01:23)''
   \<and> mic_muted (outcome (run [Line ''Call established:'', Line ''call muted''] fresh))
   \<and> \<not> mic_muted (outcome (run [Line ''Call established:'', Line ''call muted'',
                                  Line ''Call with bob terminated (duration: 00:01:23)''] fresh))"
  by code_simp

text \<open>
  C8 as it is stated fails: the timestamp hook is never called with \<open>00:01:23\<close> less its
  last character.
\<close>

theorem timestamp_keeps_last_digit:
  "H_call_timestamp (butlast ''00:01:23'')
     \<notin> set (hooks (outcome (run [Line ''Call established:'',
                  Line ''Call with bob terminated (duration: 00:01:23)''] fresh)))"
  by code_simp

text \<open>
  C2 on the driver. A line is compared as it was read with the stripped line kept from
  the pass before. The line \<open>call muted\<close> with its line end, read twice in a row, is
  dispatched twice: the microphone hook is called for each of the two. Only a line read
  without white space around it is skipped when it comes again.
\<close>

theorem repeated_line_dispatched_twice:
  "hooks (outcome (run [Line (''call muted'' @ [CHR 0x0D, CHR 0x0A]),
                        Line (''call muted'' @ [CHR 0x0D, CHR 0x0A])] fresh))
     = [H_mic_muted, H_mic_muted]
   \<and> hooks (outcome (run [Line ''call muted'', Line ''call muted''] fresh)) = [H_mic_muted]"
  by code_simp

text \<open>
  C3 on the driver. A connecting line without a quoted callee and a call-debug line
  without parentheses make the loop body raise \<open>IndexError\<close>, and a line of the list of
  active calls read while no call is tracked makes it raise \<open>TypeError\<close>; \<open>run\<close> catches
  neither.
\<close>

theorem unquoted_lines_raise:
  "raised (run [Line ''call: connecting to bob''] fresh) = Some IndexError
   \<and> raised (run [Line ''===== Call debug =====''] fresh) = Some IndexError
   \<and> raised (run [Line ''--- List of active calls (1): ---'',
                     Line ''[line 1]  0:00:05  ESTABLISHED  sip:bob@example.org''] fresh)
       = Some TypeError"
  by code_simp

section \<open>The default handler of incoming calls\<close>

text \<open>
  C10, as the driver has it. The default \<open>handle_incoming_call\<close> gives the one command
  \<open>b\<close> to \<open>do_command\<close>, in the same way whether a call is established or not: the line
  is written to the process when \<open>ready\<close> holds and dropped when it does not. The
  handler leaves the status and the tracked call alone, so it accepts no call.
\<close>

theorem handle_incoming_call_rejects:
  "sent (handle_incoming_call number self)
     = (if ready self then sent self @ [''b''] else sent self)
   \<and> call_status (handle_incoming_call number self) = call_status self
   \<and> current_call (handle_incoming_call number self) = current_call self
   \<and> hooks (handle_incoming_call number self) = hooks self @ [H_incoming_call number]"
  by (simp add: handle_incoming_call_def do_command_def primitive_defs)

text \<open>
  C10 as it is stated fails: on a driver that is not ready the handler writes no \<open>b\<close>.
\<close>

theorem incoming_call_not_ready:
  "sent (handle_incoming_call ''5551234'' fresh) \<noteq> sent fresh @ [''b'']"
  by code_simp

section \<open>Commands of the caller\<close>

text \<open>
  C9, as the driver has it. No operation of the caller writes \<open>ready\<close> or \<open>mic_muted\<close>.
  The status is written by \<open>accept_call\<close> (to \<open>ESTABLISHED\<close>), by \<open>quit\<close> (to \<open>NONE\<close>)
  and by \<open>hang\<close> (to \<open>NONE\<close>, when a call is tracked), and by no other operation; the
  tracked call is cleared by \<open>quit\<close> and \<open>hang\<close> and changed by no other operation.
\<close>

theorem facade_frame:
  "ready (outcome (facade e c self)) = ready self
   \<and> mic_muted (outcome (facade e c self)) = mic_muted self
   \<and> (c \<notin> {Hang, Accept_call, Quit} \<longrightarrow>
        call_status (outcome (facade e c self)) = call_status self)
   \<and> (c \<notin> {Hang, Quit} \<longrightarrow>
        current_call (outcome (facade e c self)) = current_call self)
   \<and> call_status (outcome (facade e Accept_call self)) = ESTABLISHED
   \<and> call_status (outcome (facade e Quit self)) = NONE
   \<and> current_call (outcome (facade e Quit self)) = None
   \<and> call_status (outcome (facade e Hang self))
       = (if truthy (current_call self) then NONE else call_status self)
   \<and> current_call (outcome (facade e Hang self))
       = (if truthy (current_call self) then None else current_call self)"
  by (cases c)
    (simp_all add: outcome_def action_defs primitive_defs send_dtmf_def call_established_def
      Let_def split: sum.splits bool.splits)

theorem facade_frame_witness:
  "Call ''5551234'' \<notin> {Hang, Accept_call, Quit}
   \<and> Call ''5551234'' \<notin> {Hang, Quit}
   \<and> ready (outcome (facade local_env (Call ''5551234'') fresh)) = ready fresh
   \<and> mic_muted (outcome (facade local_env (Call ''5551234'') fresh)) = mic_muted fresh
   \<and> call_status (outcome (facade local_env (Call ''5551234'') fresh)) = call_status fresh
   \<and> current_call (outcome (facade local_env (Call ''5551234'') fresh)) = current_call fresh"
  using facade_frame [of local_env "Call ''5551234''" fresh] by simp

text \<open>
  C9 as it is stated fails: \<open>accept_call\<close> on a fresh driver writes the status.
\<close>

theorem accept_call_writes_status:
  "call_status (outcome (facade local_env Accept_call fresh)) \<noteq> call_status fresh"
  by code_simp

section \<open>Digits of a DTMF number\<close>






lemma isdigit_digit_char: "d < 10 \<Longrightarrow> isdigit (digit_char d)"
  by (simp add: isdigit_def digit_char_def)

lemma isdigit_str_nat: "\<forall>c \<in> set (str_nat n). isdigit c"
proof (induction n rule: str_nat.induct)
  case (1 n)
  show ?case
  proof (cases "n < 10")
    case True
    then show ?thesis by (simp add: str_nat.simps [of n] isdigit_digit_char)
  next
    case False
    with 1 show ?thesis by (simp add: str_nat.simps [of n] isdigit_digit_char)
  qed
qed





section \<open>The address of an identity\<close>

lemma split_from_no_sep: "c \<notin> set x \<Longrightarrow> split_from [c] acc x = [acc @ x]"
  by (induction x arbitrary: acc) auto

lemma split_from_sep:
  "c \<notin> set x \<Longrightarrow> split_from [c] acc (x @ c # y) = (acc @ x) # split_from [c] [] y"
  by (induction x arbitrary: acc) auto

lemma join_Cons: "ys \<noteq> [] \<Longrightarrow> join sep (x # ys) = x @ sep @ join sep ys"
  by (cases ys) simp_all

lemma split_join:
  "xs \<noteq> [] \<Longrightarrow> \<forall>x \<in> set xs. c \<notin> set x \<Longrightarrow> split (join [c] xs) [c] = xs"
proof (induction xs)
  case Nil
  then show ?case by simp
next
  case (Cons x xs)
  show ?case
  proof (cases "xs = []")
    case True
    with Cons.prems show ?thesis
      by (simp add: split_def split_from_no_sep)
  next
    case False
    with Cons have "split (join [c] xs) [c] = xs" and "c \<notin> set x"
      by simp_all
    with False show ?thesis
      by (simp add: join_Cons split_def split_from_sep)
  qed
qed

lemma semicolon_str_int: "CHR '';'' \<notin> set (str_int p)"
proof -
  have "\<not> isdigit (CHR '';'')"
    by (simp add: isdigit_def)
  then have "CHR '';'' \<notin> set (str_nat n)" for n
    using isdigit_str_nat [of n] by blast
  then show ?thesis
    by (simp add: str_int_def)
qed

lemma sip_join:
  "sip self = join '';'' ((''sip:'' @ user self @ ''@'' @ gateway self @ '':'' @ str_int (port self))
                           # flags self @ [''auth_pass='' @ password self])"
  by (simp add: sip_def Identity_sip_def join_Cons)

lemma sip_times_same: "sip_times n self = (replicate n (sip self), self)"
  by (induction n) (simp_all add: sip_def Identity_sip_def)

lemma digit_chars:
  "digit_char 0 = CHR ''0''" "digit_char 5 = CHR ''5''" "digit_char 6 = CHR ''6''"
  by code_simp+

lemma str_5060: "str_int 5060 = ''5060''"
  by (simp add: str_int_def str_nat.simps [of 5060] str_nat.simps [of 506]
      str_nat.simps [of 50] str_nat.simps [of 5] digit_chars)

text \<open>
  C5, as the code has it. Reading \<open>sip\<close> any number of times gives the same string each
  time and leaves the identity, its flags among the rest, as it was. When the user, the
  gateway, the password and the flags hold no semicolon and no flag starts with
  \<open>auth_pass=\<close>, the address has exactly one \<open>auth_pass=\<close> component, the one made of the
  password.
\<close>

theorem sip_repeatable:
  "sip_times n self = (replicate n (sip self), self)
   \<and> (CHR '';'' \<notin> set (user self) \<and> CHR '';'' \<notin> set (gateway self)
        \<and> CHR '';'' \<notin> set (password self)
        \<and> (\<forall>f \<in> set (flags self). CHR '';'' \<notin> set f \<and> \<not> startswith ''auth_pass='' f)
      \<longrightarrow> auth_pass_components (sip self) = [''auth_pass='' @ password self])"
proof (intro conjI impI)
  show "sip_times n self = (replicate n (sip self), self)"
    by (rule sip_times_same)
next
  let ?head = "''sip:'' @ user self @ ''@'' @ gateway self @ '':'' @ str_int (port self)"
  let ?pass = "''auth_pass='' @ password self"
  assume plain: "CHR '';'' \<notin> set (user self) \<and> CHR '';'' \<notin> set (gateway self)
        \<and> CHR '';'' \<notin> set (password self)
        \<and> (\<forall>f \<in> set (flags self). CHR '';'' \<notin> set f \<and> \<not> startswith ''auth_pass='' f)"
  then have "\<forall>x \<in> set (?head # flags self @ [?pass]). CHR '';'' \<notin> set x"
    using semicolon_str_int [of "port self"] by auto
  then have "split (sip self) '';'' = ?head # flags self @ [?pass]"
    using split_join [of "?head # flags self @ [?pass]" "CHR '';''"] by (simp add: sip_join)
  moreover have "filter (startswith ''auth_pass='') (flags self) = []"
    using plain by (simp add: filter_False)
  ultimately show "auth_pass_components (sip self) = [?pass]"
    by (simp add: auth_pass_components_def)
qed

theorem sip_repeatable_witness:
  "CHR '';'' \<notin> set (user alice) \<and> CHR '';'' \<notin> set (gateway alice)
   \<and> CHR '';'' \<notin> set (password alice)
   \<and> flags alice = [''regint=0'']
   \<and> CHR '';'' \<notin> set ''regint=0'' \<and> \<not> startswith ''auth_pass='' ''regint=0''
   \<and> sip_times 3 alice = ([sip alice, sip alice, sip alice], alice)
   \<and> auth_pass_components (sip alice) = [''auth_pass=secret'']"
proof -
  have plain: "CHR '';'' \<notin> set (user alice) \<and> CHR '';'' \<notin> set (gateway alice)
     \<and> CHR '';'' \<notin> set (password alice)
     \<and> (\<forall>f \<in> set (flags alice). CHR '';'' \<notin> set f \<and> \<not> startswith ''auth_pass='' f)"
    by (simp add: alice_def)
  have fields: "password alice = ''secret''" "flags alice = [''regint=0'']"
    by (simp_all add: alice_def)
  with plain show ?thesis
    using sip_repeatable [of 3 alice] by (simp add: numeral_3_eq_3)
qed

text \<open>
  C5 as it is stated fails: the flags of an identity may carry an \<open>auth_pass=\<close> flag of
  their own, and the address then has two such components.
\<close>

theorem auth_pass_in_flags_twice:
  "auth_pass_components (sip carol) = [''auth_pass=hunter2'', ''auth_pass=secret'']"
proof -
  have "sip carol = join '';'' [''sip:carol@sip.example.org:5060'', ''auth_pass=hunter2'',
                               ''auth_pass=secret'']"
    by (simp add: sip_join carol_def str_5060)
  then have "split (sip carol) '';'' = [''sip:carol@sip.example.org:5060'',
                                       ''auth_pass=hunter2'', ''auth_pass=secret'']"
    using split_join [of "[''sip:carol@sip.example.org:5060'', ''auth_pass=hunter2'',
                           ''auth_pass=secret'']" "CHR '';''"]
    by simp
  then show ?thesis
    by (simp add: auth_pass_components_def)
qed

section \<open>The tracked call and the status\<close>

lemma tracked_kept:
  "current_call (log_msg l m s) = current_call s" "call_status (log_msg l m s) = call_status s"
  "current_call (sendline t s) = current_call s" "call_status (sendline t s) = call_status s"
  "current_call (hook h s) = current_call s" "call_status (hook h s) = call_status s"
  "current_call (do_command a s) = current_call s" "call_status (do_command a s) = call_status s"
  by (simp_all add: do_command_def primitive_defs)

lemma tracked_kept_actions:
  "current_call (create_user_agent s) = current_call s"
  "call_status (create_user_agent s) = call_status s"
  "current_call (call n s) = current_call s" "call_status (call n s) = call_status s"
  "current_call (hold s) = current_call s" "call_status (hold s) = call_status s"
  "current_call (resume s) = current_call s" "call_status (resume s) = call_status s"
  "current_call (mute_mic s) = current_call s" "call_status (mute_mic s) = call_status s"
  "current_call (unmute_mic s) = current_call s" "call_status (unmute_mic s) = call_status s"
  "current_call (list_calls s) = current_call s" "call_status (list_calls s) = call_status s"
  "current_call (check_call_status s) = current_call s"
  "call_status (check_call_status s) = call_status s"
  "current_call (send_audio e w s) = current_call s" "call_status (send_audio e w s) = call_status s"
  "current_call (speak e t s) = current_call s" "call_status (speak e t s) = call_status s"
  by (simp_all add: create_user_agent_def call_def hold_def resume_def mute_mic_def
      unmute_mic_def list_calls_def check_call_status_def send_audio_def speak_def steps_def
      tracked_kept)

lemma tracked_kept_events:
  "current_call (handle_incoming_call n s) = current_call s"
  "call_status (handle_incoming_call n s) = call_status s"
  "current_call (handle_call_rejected n s) = current_call s"
  "call_status (handle_call_rejected n s) = call_status s"
  "current_call (handle_call_timestamp t s) = current_call s"
  "call_status (handle_call_timestamp t s) = call_status s"
  "current_call (priv_handle_call_start s) = current_call s"
  "call_status (priv_handle_call_start s) = call_status s"
  "current_call (priv_handle_call_ringing s) = current_call s"
  "call_status (priv_handle_call_ringing s) = call_status s"
  "current_call (handle_call_established s) = current_call s"
  "call_status (handle_call_established s) = call_status s"
  "current_call (handle_call_ended r s) = current_call s"
  "call_status (handle_call_ended r s) = call_status s"
  "current_call (priv_handle_no_accounts s) = current_call s"
  "call_status (priv_handle_no_accounts s) = call_status s"
  "current_call (handle_login_success s) = current_call s"
  "call_status (handle_login_success s) = call_status s"
  "current_call (handle_ready s) = current_call s"
  "call_status (handle_ready s) = call_status s"
  "current_call (handle_mic_muted s) = current_call s"
  "call_status (handle_mic_muted s) = call_status s"
  "current_call (handle_mic_unmuted s) = current_call s"
  "call_status (handle_mic_unmuted s) = call_status s"
  "current_call (handle_dtmf_received c d s) = current_call s"
  "call_status (handle_dtmf_received c d s) = call_status s"
  by (simp_all add: handle_incoming_call_def handle_call_rejected_def
      handle_call_timestamp_def priv_handle_call_start_def priv_handle_call_ringing_def
      handle_call_established_def handle_call_ended_def priv_handle_no_accounts_def
      handle_login_success_def handle_ready_def handle_mic_muted_def handle_mic_unmuted_def
      handle_dtmf_received_def steps_def tracked_kept tracked_kept_actions)

lemma tracked_status:
  "current_call (handle_call_status st s) = current_call s"
  "call_status (handle_call_status st s) = st"
  by (simp_all add: handle_call_status_def steps_def tracked_kept)

lemma tracked_hang:
  "current_call (hang s) = (if truthy (current_call s) then None else current_call s)"
  "call_status (hang s) = (if truthy (current_call s) then NONE else call_status s)"
  by (simp_all add: hang_def steps_def tracked_kept)

lemma tracked_quit:
  "current_call (quit s) = None" "call_status (quit s) = NONE"
  by (simp_all add: quit_def steps_def)

lemma tracked_failures:
  "current_call (handle_audio_stream_failure s)
     = (if truthy (current_call s) then None else current_call s)"
  "call_status (handle_audio_stream_failure s)
     = (if truthy (current_call s) then NONE else call_status s)"
  "current_call (handle_login_failure s) = None"
  "call_status (handle_login_failure s) = NONE"
  by (simp_all add: handle_audio_stream_failure_def handle_login_failure_def steps_def
      tracked_kept tracked_hang tracked_quit)

lemma tracked_error:
  "current_call (handle_error err s)
     = (if err = ''failed to set audio-source (No such device)'' \<and> truthy (current_call s)
        then None else current_call s)"
  "call_status (handle_error err s)
     = (if err = ''failed to set audio-source (No such device)'' \<and> truthy (current_call s)
        then NONE else call_status s)"
  by (simp_all add: handle_error_def steps_def tracked_kept tracked_failures)

lemmas tracked = tracked_kept tracked_kept_actions tracked_kept_events tracked_status
  tracked_hang tracked_quit tracked_failures tracked_error

lemma moves_refl: "moves s s"
  by (simp add: moves_def)

lemma moves_if:
  "moves s (outcome a) \<Longrightarrow> moves s (outcome b) \<Longrightarrow> moves s (outcome (if c then a else b))"
  by simp

lemma moves_getitem:
  "(\<And>x. moves s (outcome (k x))) \<Longrightarrow> moves s (outcome (getitem xs i s k))"
  by (simp add: getitem_def outcome_def moves_refl)

lemma moves_tracked:
  "(\<And>c. moves s (outcome (k c))) \<Longrightarrow>
   moves s (outcome (case current_call s of None \<Rightarrow> Inl (TypeError, s) | Some c \<Rightarrow> k c))"
  by (simp add: outcome_def moves_refl split: option.splits)

lemma moves_dtmf:
  "moves s (outcome (case m of
      Some (c, digits) \<Rightarrow> Inr (handle_dtmf_received c (int_of_digits digits) s)
    | None \<Rightarrow> Inr s))"
  by (simp add: outcome_def moves_def tracked split: option.splits prod.splits)

lemma moves_dispatch: "moves s (outcome (dispatch out s))"
  unfolding dispatch_def Let_def
  by (intro moves_if moves_getitem moves_tracked moves_dtmf)
    (simp_all add: moves_def outcome_def steps_def tracked)

lemma moves_log: "moves (log_msg l m s) s' \<Longrightarrow> moves s s'"
  by (simp add: moves_def tracked)

lemma moves_on_line: "moves s (outcome (on_line raw s))"
proof (cases "raw = prev_output s")
  case True
  then show ?thesis by (simp add: on_line_def outcome_def moves_refl)
next
  case False
  let ?s = "log_msg DEBUG (''baresip> '' @ strip raw) s"
  have "moves ?s (outcome (dispatch (strip raw) ?s))"
    by (rule moves_dispatch)
  then have "moves s (outcome (dispatch (strip raw) ?s))"
    by (rule moves_log)
  with False show ?thesis
    by (auto simp: on_line_def outcome_def moves_def Let_def split: sum.splits)
qed

lemma moves_iteration: "moves s (outcome (iteration r s))"
  by (cases r) (simp_all add: moves_on_line, simp_all add: outcome_def moves_def)

lemma moves_facade: "moves s (outcome (facade e c s))"
  by (cases c)
    (simp_all add: moves_def outcome_def tracked accept_call_def steps_def send_dtmf_def Let_def
      split: sum.splits bool.splits)

lemma moves_step: "moves s (step e a s)"
  by (cases a) (simp_all add: moves_iteration moves_facade)

lemma session_snoc: "session e (as @ [a]) s = step e a (session e as s)"
  by (simp add: session_def)

lemma session_tracked:
  "call_status (session e as (init ident updated original config)) = NONE
   \<Longrightarrow> current_call (session e as (init ident updated original config)) = None"
proof (induction as rule: rev_induct)
  case Nil
  show ?case by (simp add: session_def init_def)
next
  case (snoc a as)
  let ?s = "session e as (init ident updated original config)"
  have "moves ?s (step e a ?s)"
    by (rule moves_step)
  with snoc show ?case
    unfolding session_snoc moves_def by auto
qed

text \<open>
  C1, as the driver has it. After any sequence of passes of the loop body and calls of
  operations, a tracked call comes with a status other than \<open>NONE\<close>: one of \<open>INCOMING\<close>,
  \<open>OUTGOING\<close>, \<open>RINGING\<close>, \<open>ESTABLISHED\<close>, \<open>ON_HOLD\<close>, \<open>DISCONNECTED\<close> and \<open>UKNOWN\<close>. A
  step that clears the tracked call leaves the status \<open>NONE\<close>.
\<close>

theorem tracked_call_invariant:
  "(current_call (session e as (init ident updated original config)) \<noteq> None \<longrightarrow>
      call_status (session e as (init ident updated original config))
        \<in> {INCOMING, OUTGOING, RINGING, ESTABLISHED, ON_HOLD, DISCONNECTED, UKNOWN})
   \<and> (current_call self \<noteq> None \<and> current_call (step e a self) = None \<longrightarrow>
        call_status (step e a self) = NONE)"
proof (intro conjI impI)
  let ?s = "session e as (init ident updated original config)"
  assume "current_call ?s \<noteq> None"
  then have "call_status ?s \<noteq> NONE"
    using session_tracked [of e as ident updated original config] by auto
  then show "call_status ?s \<in> {INCOMING, OUTGOING, RINGING, ESTABLISHED, ON_HOLD, DISCONNECTED, UKNOWN}"
    by (cases "call_status ?s") simp_all
next
  assume "current_call self \<noteq> None \<and> current_call (step e a self) = None"
  then show "call_status (step e a self) = NONE"
    using moves_step [of self e a] unfolding moves_def by auto
qed

theorem tracked_call_invariant_witness:
  "current_call (session local_env
       [Read (Line ''Incoming call from: 5551234 - (press 'a' to accept)'')] fresh) \<noteq> None
   \<and> call_status (session local_env
         [Read (Line ''Incoming call from: 5551234 - (press 'a' to accept)'')] fresh)
       \<in> {INCOMING, OUTGOING, RINGING, ESTABLISHED, ON_HOLD, DISCONNECTED, UKNOWN}
   \<and> current_call (step local_env (Command Hang) (session local_env
         [Read (Line ''Incoming call from: 5551234 - (press 'a' to accept)'')] fresh)) = None
   \<and> call_status (step local_env (Command Hang) (session local_env
         [Read (Line ''Incoming call from: 5551234 - (press 'a' to accept)'')] fresh)) = NONE"
proof -
  let ?ringing = "session local_env
    [Read (Line ''Incoming call from: 5551234 - (press 'a' to accept)'')] fresh"
  have tracked: "current_call ?ringing \<noteq> None"
    by code_simp
  have cleared: "current_call (step local_env (Command Hang) ?ringing) = None"
    by code_simp
  show ?thesis
    using tracked cleared
      tracked_call_invariant [of local_env
        "[Read (Line ''Incoming call from: 5551234 - (press 'a' to accept)'')]"
        alice False "''audio_player aplay''" "''audio_player aplay''"
        ?ringing "Command Hang"]
    unfolding fresh_def by blast
qed

text \<open>
  C1 as it is stated fails: the end of a call sets the status to \<open>DISCONNECTED\<close> and
  leaves the tracked call in place.
\<close>

theorem call_tracked_after_disconnect:
  "current_call (session local_env
       [Read (Line ''Incoming call from: 5551234 - (press 'a' to accept)''),
        Read (Line ''Call with 5551234 terminated (duration: 00:00:05)'')] fresh) \<noteq> None
   \<and> call_status (session local_env
       [Read (Line ''Incoming call from: 5551234 - (press 'a' to accept)''),
        Read (Line ''Call with 5551234 terminated (duration: 00:00:05)'')] fresh)
      \<notin> {INCOMING, OUTGOING, RINGING, ESTABLISHED, ON_HOLD}"
  by code_simp

end
